theory Spec2Isabelle
  imports Complex_Main
begin

section \<open>Exoplanet explanation engine (layman.py, app.py): data model\<close>

text \<open>
  Python numbers are modelled as \<^typ>\<open>real\<close>: the decision structure, the unit factors
  and the formulas are those of the source in exact arithmetic. The rounding of binary
  floating point is modelled for the normalised habitable-zone distance, where it decides
  the answer on the zone boundary (\<open>calculate_hzd_double\<close>). Every \<open>raise\<close> of the source
  is a value \<open>Inl e\<close> of the result type.
\<close>

datatype py_error = ZeroDivisionError | ValueError | IndexError | UnboundLocalError

text \<open>A dictionary entry read with a default: the key may be missing, or hold JSON null.\<close>

datatype 'a json_field = Missing | Null | Val 'a

definition get :: "'a json_field \<Rightarrow> 'a option" where
  "get f = (case f of Missing \<Rightarrow> None | Null \<Rightarrow> None | Val v \<Rightarrow> Some v)"

definition get_or :: "'a json_field \<Rightarrow> 'a \<Rightarrow> 'a option" where
  "get_or f d = (case f of Missing \<Rightarrow> Some d | Null \<Rightarrow> None | Val v \<Rightarrow> Some v)"

text \<open>
  One catalog record. The fields read only through \<open>planet_data.get(key)\<close> hold the value
  of that call: \<open>None\<close> when the key is missing or null.
\<close>

record planet_data =
  pl_name :: "string json_field"
  hostname :: "string json_field"
  discoverymethod :: "string json_field"
  disc_year :: "real json_field"
  st_rad :: "real option"
  st_teff :: "real option"
  st_lum :: "real option"
  st_spectype :: "string option"
  pl_orbsmax :: "real option"
  sy_plx :: "real option"
  sy_dist :: "real option"
  pl_bmassj :: "real option"
  pl_bmasse :: "real option"
  pl_msinij :: "real option"
  pl_msinie :: "real option"
  pl_rade :: "real option"
  pl_radj :: "real option"
  pl_orbper :: "real option"

text \<open>Python truthiness of an optional number: \<open>None\<close> and zero are false.\<close>

definition truthy :: "real option \<Rightarrow> bool" where
  "truthy x = (case x of None \<Rightarrow> False | Some v \<Rightarrow> v \<noteq> 0)"

definition py_div :: "real \<Rightarrow> real \<Rightarrow> py_error + real" where
  "py_div a b = (if b = 0 then Inl ZeroDivisionError else Inr (a / b))"

definition py_sqrt :: "real \<Rightarrow> py_error + real" where
  "py_sqrt x = (if x < 0 then Inl ValueError else Inr (sqrt x))"

section \<open>Habitable zone\<close>

definition ts :: real where "ts = 5700"
definition ai :: real where "ai = 2.7619 / 10 ^ 5"
definition bi :: real where "bi = 3.8095 / 10 ^ 9"
definition ao :: real where "ao = 1.3786 / 10 ^ 4"
definition bo :: real where "bo = 1.4286 / 10 ^ 9"
definition ris :: real where "ris = 0.72"
definition ros :: real where "ros = 1.77"

definition inner_denominator :: "real \<Rightarrow> real" where
  "inner_denominator star_temp = 1.0 + ai * (star_temp - ts) - bi * (star_temp - ts) ^ 2"

definition outer_denominator :: "real \<Rightarrow> real" where
  "outer_denominator star_temp = 1.0 + ao * (star_temp - ts) - bo * (star_temp - ts) ^ 2"

definition calculate_habitable_zone :: "real \<Rightarrow> real \<Rightarrow> py_error + (real \<times> real)" where
  "calculate_habitable_zone star_luminosity star_temp =
     (case py_div star_luminosity (inner_denominator star_temp) of
        Inl e \<Rightarrow> Inl e
      | Inr qi \<Rightarrow>
     (case py_sqrt qi of
        Inl e \<Rightarrow> Inl e
      | Inr si \<Rightarrow>
     (case py_div star_luminosity (outer_denominator star_temp) of
        Inl e \<Rightarrow> Inl e
      | Inr qo \<Rightarrow>
     (case py_sqrt qo of
        Inl e \<Rightarrow> Inl e
      | Inr so \<Rightarrow> Inr (ris * si, ros * so)))))"

definition calculate_hzd :: "real \<Rightarrow> real \<Rightarrow> real \<Rightarrow> py_error + real" where
  "calculate_hzd planet_distance inner_hz outer_hz =
     (let hz_center = (inner_hz + outer_hz) / 2;
          hz_half_width = (outer_hz - inner_hz) / 2
      in py_div (planet_distance - hz_center) hz_half_width)"

text \<open>
  \<open>calculate_hzd\<close> above is the source's expression in exact arithmetic. The source
  computes it in binary64 floating point, where every operation rounds its exact result to
  the nearest number with 53 significant bits, ties to the even one. \<open>double\<close> is that
  rounding (with the fixed spacing 2^-1074 below 2^-1022; results of magnitude 2^1024 and
  more, which the source turns into infinities, are outside it), and
  \<open>calculate_hzd_double\<close> is the source's expression with each operation rounded.
\<close>

definition pow2 :: "int \<Rightarrow> real" where
  "pow2 e = (if 0 \<le> e then 2 ^ nat e else 1 / 2 ^ nat (- e))"

definition round_half_even :: "real \<Rightarrow> int" where
  "round_half_even x =
     (let f = \<lfloor>x\<rfloor>; r = x - of_int f
      in if r < 1 / 2 then f
         else if 1 / 2 < r then f + 1
         else if even f then f else f + 1)"

definition binade :: "real \<Rightarrow> int" where
  "binade x = \<lfloor>log 2 \<bar>x\<bar>\<rfloor>"

definition double :: "real \<Rightarrow> real" where
  "double x =
     (if x = 0 then 0
      else (let q = pow2 (max (binade x) (- 1022) - 52)
            in of_int (round_half_even (x / q)) * q))"

definition calculate_hzd_double :: "real \<Rightarrow> real \<Rightarrow> real \<Rightarrow> py_error + real" where
  "calculate_hzd_double planet_distance inner_hz outer_hz =
     (let hz_center = double (double (inner_hz + outer_hz) / 2);
          hz_half_width = double (double (outer_hz - inner_hz) / 2)
      in case py_div (double (planet_distance - hz_center)) hz_half_width of
           Inl e \<Rightarrow> Inl e
         | Inr hzd \<Rightarrow> Inr (double hzd))"

definition sun_temp :: real where "sun_temp = 5778"

definition parse_stellar_luminosity :: "real option \<Rightarrow> real option \<Rightarrow> real option" where
  "parse_stellar_luminosity star_radius star_temp =
     (case star_radius of
        None \<Rightarrow> None
      | Some r \<Rightarrow>
          (case star_temp of
             None \<Rightarrow> None
           | Some t \<Rightarrow> if r = 0 \<or> t = 0 then None else Some (r ^ 2 * (t / sun_temp) ^ 4)))"

section \<open>Distance from Earth\<close>

definition calculate_earth_distance_light_years :: "real option \<Rightarrow> real option \<Rightarrow> real option" where
  "calculate_earth_distance_light_years parallax distance_parsecs =
     (case distance_parsecs of
        Some dp \<Rightarrow> Some (dp * 3.26)
      | None \<Rightarrow>
          (case parallax of
             None \<Rightarrow> None
           | Some plx \<Rightarrow> if plx \<noteq> 0 then Some ((1000 / plx) * 3.26) else None))"

text \<open>
  \<open>parallax_to_light_years\<close> of app.py: \<open>None\<close> is pandas' missing value on the way in
  and \<open>np.nan\<close> on the way out.
\<close>

definition PARSEC_TO_LIGHT_YEAR :: real where "PARSEC_TO_LIGHT_YEAR = 3.26"

definition parallax_to_light_years :: "real option \<Rightarrow> real option" where
  "parallax_to_light_years plx =
     (case plx of
        None \<Rightarrow> None
      | Some v \<Rightarrow> if v \<le> 0 then None else Some ((1000 / v) * PARSEC_TO_LIGHT_YEAR))"

section \<open>Habitability assessment\<close>

text \<open>
  \<open>is_planet_habitable\<close> receives the whole record both as \<open>planet_mass\<close> and as
  \<open>planet_radius\<close>. Its mass check reads \<open>pl_bmassj\<close> first and \<open>pl_bmasse\<close> in the
  \<open>elif\<close>; its size check reads \<open>pl_rade\<close> only.
\<close>

definition habitable_mass_suitable :: "planet_data \<Rightarrow> bool" where
  "habitable_mass_suitable planet_mass =
     (case pl_bmassj planet_mass of
        Some jupiter_mass \<Rightarrow>
          (let earth_mass_equivalent = jupiter_mass * 317.8
           in 0.1 \<le> earth_mass_equivalent \<and> earth_mass_equivalent \<le> 10)
      | None \<Rightarrow>
          (case pl_bmasse planet_mass of
             Some earth_mass \<Rightarrow> 0.1 \<le> earth_mass \<and> earth_mass \<le> 10
           | None \<Rightarrow> True))"

definition habitable_size_suitable :: "planet_data \<Rightarrow> bool" where
  "habitable_size_suitable planet_radius =
     (case pl_rade planet_radius of
        Some earth_radius \<Rightarrow> 0.5 \<le> earth_radius \<and> earth_radius \<le> 2.0
      | None \<Rightarrow> True)"

definition is_planet_habitable :: "real \<Rightarrow> real \<Rightarrow> real \<Rightarrow> planet_data \<Rightarrow> planet_data \<Rightarrow> string" where
  "is_planet_habitable planet_distance inner_hz outer_hz planet_mass planet_radius =
     (let in_habitable_zone = (inner_hz \<le> planet_distance \<and> planet_distance \<le> outer_hz);
          mass_suitable = habitable_mass_suitable planet_mass;
          size_suitable = habitable_size_suitable planet_radius
      in if in_habitable_zone then
           (if mass_suitable \<and> size_suitable then ''Potentially habitable''
            else ''In habitable zone but may not have right mass/size for habitability'')
         else ''Not in habitable zone'')"

section \<open>Planet type\<close>

text \<open>
  The two extraction blocks of \<open>get_planet_type\<close> are \<open>type_earth_mass\<close> and
  \<open>type_earth_radius\<close>; the three tables follow in the order of the source.
\<close>

definition type_earth_mass :: "planet_data \<Rightarrow> real option" where
  "type_earth_mass planet_mass =
     (case pl_bmassj planet_mass of
        Some jupiter_mass \<Rightarrow> Some (jupiter_mass * 317.8)
      | None \<Rightarrow>
     (case pl_bmasse planet_mass of
        Some m \<Rightarrow> Some m
      | None \<Rightarrow>
     (case pl_msinij planet_mass of
        Some jupiter_mass \<Rightarrow> Some (jupiter_mass * 317.8)
      | None \<Rightarrow> pl_msinie planet_mass)))"

definition type_earth_radius :: "planet_data \<Rightarrow> real option" where
  "type_earth_radius planet_radius =
     (case pl_rade planet_radius of
        Some r \<Rightarrow> Some r
      | None \<Rightarrow>
     (case pl_radj planet_radius of
        Some jupiter_radius \<Rightarrow> Some (jupiter_radius * 11.2)
      | None \<Rightarrow> None))"

definition get_planet_type :: "planet_data \<Rightarrow> planet_data \<Rightarrow> string" where
  "get_planet_type planet_mass planet_radius =
     (case (type_earth_mass planet_mass, type_earth_radius planet_radius) of
        (Some earth_mass, Some earth_radius) \<Rightarrow>
          (if earth_mass < 0.1 then ''Sub-Earth/Mercury-like''
           else if earth_mass < 2 \<and> earth_radius < 1.5 then ''Earth-like terrestrial planet''
           else if earth_mass < 10 \<and> earth_radius < 2.5 then ''Super-Earth''
           else if earth_mass < 50 \<and> earth_radius < 6 then ''Mini-Neptune/Gas Dwarf''
           else if earth_mass < 500 then ''Neptune-like gas giant''
           else ''Jupiter-like gas giant'')
      | (Some earth_mass, None) \<Rightarrow>
          (if earth_mass < 0.1 then ''Sub-Earth/Mercury-like''
           else if earth_mass < 2 then ''Possibly Earth-like''
           else if earth_mass < 10 then ''Possibly Super-Earth''
           else if earth_mass < 50 then ''Possibly Mini-Neptune''
           else if earth_mass < 500 then ''Neptune-like gas giant''
           else ''Jupiter-like gas giant'')
      | (None, Some earth_radius) \<Rightarrow>
          (if earth_radius < 0.8 then ''Sub-Earth/Mercury-like''
           else if earth_radius < 1.5 then ''Possibly Earth-like''
           else if earth_radius < 2.5 then ''Possibly Super-Earth''
           else if earth_radius < 6 then ''Possibly Mini-Neptune/Gas Dwarf''
           else if earth_radius < 15 then ''Neptune-like gas giant''
           else ''Jupiter-like gas giant'')
      | (None, None) \<Rightarrow> ''Unknown (insufficient data)'')"

section \<open>Surface gravity\<close>

text \<open>
  The extraction blocks of \<open>calculate_surface_gravity\<close>, then the quotient; a radius of
  zero makes the division raise.
\<close>

definition gravity_earth_mass :: "planet_data \<Rightarrow> real option" where
  "gravity_earth_mass planet_mass =
     (case pl_bmassj planet_mass of
        Some jupiter_mass \<Rightarrow> Some (jupiter_mass * 317.8)
      | None \<Rightarrow> pl_bmasse planet_mass)"

definition gravity_earth_radius :: "planet_data \<Rightarrow> real option" where
  "gravity_earth_radius planet_radius =
     (case pl_rade planet_radius of
        Some r \<Rightarrow> Some r
      | None \<Rightarrow>
     (case pl_radj planet_radius of
        Some jupiter_radius \<Rightarrow> Some (jupiter_radius * 11.2)
      | None \<Rightarrow> None))"

definition calculate_surface_gravity :: "planet_data \<Rightarrow> planet_data \<Rightarrow> py_error + real option" where
  "calculate_surface_gravity planet_mass planet_radius =
     (case (gravity_earth_mass planet_mass, gravity_earth_radius planet_radius) of
        (Some earth_mass, Some earth_radius) \<Rightarrow>
          (case py_div earth_mass (earth_radius ^ 2) of
             Inl e \<Rightarrow> Inl e
           | Inr gravity \<Rightarrow> Inr (Some gravity))
      | (Some earth_mass, None) \<Rightarrow> Inr None
      | (None, _) \<Rightarrow> Inr None)"

section \<open>Star type\<close>

text \<open>
  A character of a Python string is read as a code point below 256. The white space that
  \<open>str.strip\<close> and \<open>str.split\<close> remove there: U+0009 to U+000D, U+001C to U+001F, the space,
  U+0085 and U+00A0.
\<close>

definition is_space :: "char \<Rightarrow> bool" where
  "is_space c = (c \<in> set [CHR 0x09, CHR 0x0A, CHR 0x0B, CHR 0x0C, CHR 0x0D,
                            CHR 0x1C, CHR 0x1D, CHR 0x1E, CHR 0x1F, CHR 0x20,
                            CHR 0x85, CHR 0xA0])"

text \<open>\<open>spectype.strip().split()[0]\<close>: the first run of non-blank characters, if any.\<close>

definition first_token :: "string \<Rightarrow> py_error + string" where
  "first_token s =
     (let t = takeWhile (\<lambda>c. \<not> is_space c) (dropWhile is_space s)
      in if t = [] then Inl IndexError else Inr t)"

definition startswith :: "string \<Rightarrow> string \<Rightarrow> bool" where
  "startswith s p = (take (length p) s = p)"

fun contains :: "string \<Rightarrow> string \<Rightarrow> bool" where
  "contains [] sub = (sub = [])"
| "contains (c # cs) sub = (startswith (c # cs) sub \<or> contains cs sub)"

definition giant_marker :: "string \<Rightarrow> bool" where
  "giant_marker spectype =
     (contains spectype ''III'' \<or> contains spectype ''II'' \<or> contains spectype ''I'')"

definition get_star_type_from_spectype :: "string option \<Rightarrow> py_error + string option" where
  "get_star_type_from_spectype spectype_opt =
     (case spectype_opt of
        None \<Rightarrow> Inr None
      | Some spectype \<Rightarrow>
          if spectype = [] then Inr None
          else
            (case first_token spectype of
               Inl e \<Rightarrow> Inl e
             | Inr spectral_type \<Rightarrow>
                 Inr (Some
                  (if startswith spectral_type ''O'' then ''extremely hot O-type star''
                   else if startswith spectral_type ''B'' then ''very hot B-type star''
                   else if startswith spectral_type ''A'' then ''hot A-type star''
                   else if startswith spectral_type ''F'' then ''F-type star (hotter than our Sun)''
                   else if startswith spectral_type ''G'' then
                     (if giant_marker spectype then ''G-type giant star''
                      else ''G-type star (similar to our Sun)'')
                   else if startswith spectral_type ''K'' then
                     (if giant_marker spectype then ''K-type giant star''
                      else ''K-type orange dwarf star'')
                   else if startswith spectral_type ''M'' then
                     (if giant_marker spectype then ''M-type giant star''
                      else ''M-type red dwarf star'')
                   else if startswith spectral_type ''L'' \<or> startswith spectral_type ''T''
                           \<or> startswith spectral_type ''Y'' then ''very cool brown dwarf''
                   else ''unknown type star''))))"

section \<open>The explanation record\<close>

text \<open>
  The sentences of the explanation are format strings over the derived numbers; each
  template is a constructor that carries the values it prints.
\<close>

datatype sentence =
    Distance_is real
  | Distance_insufficient
  | Habitability_is string string
  | Habitability_insufficient
  | Planet_type_is string
  | Size_earth real
  | Size_jupiter real real
  | Size_insufficient
  | Mass_earth real
  | Mass_jupiter real real
  | Min_mass_earth real
  | Min_mass_jupiter real real
  | Mass_insufficient
  | Gravity_is real
  | Gravity_insufficient
  | Year_hours real
  | Year_days_short real
  | Year_days real
  | Year_insufficient
  | Star_type_temp string real
  | Star_type_only string
  | Star_temp_only real
  | Star_insufficient

datatype year_out = Year real | Unknown_year

record distance_entry =
  distance_answer :: sentence
  distance_value :: "real option"
  distance_unit :: string

record habitability_entry =
  habitability_answer :: sentence
  habitable_zone_distance :: "real option"
  inner_habitable_boundary :: "real option"
  outer_habitable_boundary :: "real option"
  actual_distance :: "real option"
  assessment :: string

record planet_type_entry =
  planet_type_answer :: sentence
  planet_type :: string

record size_entry =
  size_answer :: sentence
  earth_radius_ratio :: "real option"
  jupiter_radius_ratio :: "real option"

record mass_entry =
  mass_answer :: sentence
  earth_mass_ratio :: "real option"
  jupiter_mass_ratio :: "real option"
  minimum_mass_note :: bool

record gravity_entry =
  gravity_answer :: sentence
  earth_gravity_ratio :: "real option"

record year_entry =
  year_answer :: sentence
  orbital_period_days :: "real option"

record star_entry =
  star_answer :: sentence
  star_temperature :: "real option"
  star_type :: string

record explanation =
  planet_name :: "string option"
  host_star :: "string option"
  discovery_method :: "string option"
  discovery_year :: "year_out option"
  distance :: distance_entry
  habitability :: habitability_entry
  planet_type_info :: planet_type_entry
  size_info :: size_entry
  mass_info :: mass_entry
  gravity :: gravity_entry
  year_length :: year_entry
  star_type_info :: star_entry

section \<open>analyze_exoplanet, section by section\<close>

text \<open>
  Each entry of \<open>layman_explanation\<close> is computed by one function below, in the order of
  the source; \<open>analyze_exoplanet\<close> assembles them and returns the first exception raised.
  The zone formula, the gravity and the spectral-type parser are the parts that can raise.
\<close>

definition effective_luminosity :: "planet_data \<Rightarrow> real option" where
  "effective_luminosity planet_data =
     (case st_lum planet_data of
        Some l \<Rightarrow> Some l
      | None \<Rightarrow>
          if truthy (st_rad planet_data) \<and> truthy (st_teff planet_data)
          then parse_stellar_luminosity (st_rad planet_data) (st_teff planet_data)
          else None)"

definition distance_section :: "planet_data \<Rightarrow> distance_entry" where
  "distance_section planet_data =
     (let distance_ly = calculate_earth_distance_light_years (sy_plx planet_data) (sy_dist planet_data)
      in case distance_ly of
           None \<Rightarrow>
             \<lparr>distance_answer = Distance_insufficient, distance_value = None,
              distance_unit = ''light years''\<rparr>
         | Some v \<Rightarrow>
             if v \<noteq> 0 then
               \<lparr>distance_answer = Distance_is v, distance_value = Some v,
                distance_unit = ''light years''\<rparr>
             else
               \<lparr>distance_answer = Distance_insufficient, distance_value = None,
                distance_unit = ''light years''\<rparr>)"

definition unknown_habitability :: habitability_entry where
  "unknown_habitability =
     \<lparr>habitability_answer = Habitability_insufficient, habitable_zone_distance = None,
      inner_habitable_boundary = None, outer_habitable_boundary = None,
      actual_distance = None, assessment = ''Unknown''\<rparr>"

definition hz_position :: "real \<Rightarrow> py_error + string" where
  "hz_position hzd =
     (if hzd < - 1 then Inr ''too close to its star (too hot)''
      else if hzd > 1 then Inr ''too far from its star (too cold)''
      else if - 1 \<le> hzd \<and> hzd \<le> 1 then Inr ''within the habitable zone''
      else Inl UnboundLocalError)"

definition habitability_section :: "planet_data \<Rightarrow> py_error + habitability_entry" where
  "habitability_section planet_data =
     (let star_temp = st_teff planet_data;
          star_luminosity = effective_luminosity planet_data;
          planet_distance = pl_orbsmax planet_data
      in if truthy star_luminosity \<and> truthy star_temp \<and> truthy planet_distance then
           (case calculate_habitable_zone (the star_luminosity) (the star_temp) of
              Inl e \<Rightarrow> Inl e
            | Inr (inner_hz, outer_hz) \<Rightarrow>
           (case calculate_hzd (the planet_distance) inner_hz outer_hz of
              Inl e \<Rightarrow> Inl e
            | Inr hzd \<Rightarrow>
           (let habitability_text =
                  is_planet_habitable (the planet_distance) inner_hz outer_hz planet_data planet_data
            in case hz_position hzd of
                 Inl e \<Rightarrow> Inl e
               | Inr position \<Rightarrow>
                   Inr \<lparr>habitability_answer = Habitability_is position habitability_text,
                        habitable_zone_distance = Some hzd,
                        inner_habitable_boundary = Some inner_hz,
                        outer_habitable_boundary = Some outer_hz,
                        actual_distance = planet_distance,
                        assessment = habitability_text\<rparr>)))
         else Inr unknown_habitability)"

definition planet_type_section :: "planet_data \<Rightarrow> planet_type_entry" where
  "planet_type_section planet_data =
     (let t = get_planet_type planet_data planet_data
      in \<lparr>planet_type_answer = Planet_type_is t, planet_type = t\<rparr>)"

definition size_section :: "planet_data \<Rightarrow> size_entry" where
  "size_section planet_data =
     (if truthy (pl_rade planet_data) then
        \<lparr>size_answer = Size_earth (the (pl_rade planet_data)),
         earth_radius_ratio = pl_rade planet_data, jupiter_radius_ratio = None\<rparr>
      else if truthy (pl_radj planet_data) then
        (let jupiter_radius = the (pl_radj planet_data);
             earth_radius = jupiter_radius * 11.2
         in \<lparr>size_answer = Size_jupiter earth_radius jupiter_radius,
             earth_radius_ratio = Some earth_radius, jupiter_radius_ratio = Some jupiter_radius\<rparr>)
      else
        \<lparr>size_answer = Size_insufficient, earth_radius_ratio = None, jupiter_radius_ratio = None\<rparr>)"

definition mass_section :: "planet_data \<Rightarrow> mass_entry" where
  "mass_section planet_data =
     (if truthy (pl_bmasse planet_data) then
        \<lparr>mass_answer = Mass_earth (the (pl_bmasse planet_data)),
         earth_mass_ratio = pl_bmasse planet_data, jupiter_mass_ratio = None,
         minimum_mass_note = False\<rparr>
      else if truthy (pl_bmassj planet_data) then
        (let jupiter_mass = the (pl_bmassj planet_data);
             earth_mass = jupiter_mass * 317.8
         in \<lparr>mass_answer = Mass_jupiter earth_mass jupiter_mass,
             earth_mass_ratio = Some earth_mass, jupiter_mass_ratio = Some jupiter_mass,
             minimum_mass_note = False\<rparr>)
      else if truthy (pl_msinie planet_data) \<or> truthy (pl_msinij planet_data) then
        (if truthy (pl_msinie planet_data) then
           \<lparr>mass_answer = Min_mass_earth (the (pl_msinie planet_data)),
            earth_mass_ratio = pl_msinie planet_data, jupiter_mass_ratio = None,
            minimum_mass_note = True\<rparr>
         else
           (let jupiter_mass = the (pl_msinij planet_data);
                earth_mass = jupiter_mass * 317.8
            in \<lparr>mass_answer = Min_mass_jupiter earth_mass jupiter_mass,
                earth_mass_ratio = Some earth_mass, jupiter_mass_ratio = Some jupiter_mass,
                minimum_mass_note = True\<rparr>))
      else
        \<lparr>mass_answer = Mass_insufficient, earth_mass_ratio = None, jupiter_mass_ratio = None,
         minimum_mass_note = False\<rparr>)"

definition gravity_section :: "planet_data \<Rightarrow> py_error + gravity_entry" where
  "gravity_section planet_data =
     (case calculate_surface_gravity planet_data planet_data of
        Inl e \<Rightarrow> Inl e
      | Inr g \<Rightarrow>
          if truthy g then
            Inr \<lparr>gravity_answer = Gravity_is (the g), earth_gravity_ratio = g\<rparr>
          else
            Inr \<lparr>gravity_answer = Gravity_insufficient, earth_gravity_ratio = None\<rparr>)"

definition year_section :: "planet_data \<Rightarrow> year_entry" where
  "year_section planet_data =
     (if truthy (pl_orbper planet_data) then
        (let orbital_period = the (pl_orbper planet_data)
         in \<lparr>year_answer =
               (if orbital_period < 1 then Year_hours (orbital_period * 24)
                else if orbital_period < 10 then Year_days_short orbital_period
                else Year_days orbital_period),
             orbital_period_days = Some orbital_period\<rparr>)
      else \<lparr>year_answer = Year_insufficient, orbital_period_days = None\<rparr>)"

definition star_type_from_temp :: "real \<Rightarrow> string" where
  "star_type_from_temp star_temp =
     (if star_temp > 30000 then ''extremely hot O-type star''
      else if star_temp > 10000 then ''very hot B-type star''
      else if star_temp > 7500 then ''hot A-type star''
      else if star_temp > 6000 then ''F-type star (hotter than our Sun)''
      else if star_temp > 5200 then ''G-type star (similar to our Sun)''
      else if star_temp > 3700 then ''K-type orange dwarf star''
      else if star_temp > 2400 then ''M-type red dwarf star''
      else ''very cool brown dwarf'')"

definition star_section :: "planet_data \<Rightarrow> py_error + star_entry" where
  "star_section planet_data =
     (let star_temp = st_teff planet_data
      in case get_star_type_from_spectype (st_spectype planet_data) of
           Inl e \<Rightarrow> Inl e
         | Inr from_spectype \<Rightarrow>
             (let star_type_opt =
                    (case from_spectype of
                       Some t \<Rightarrow> Some t
                     | None \<Rightarrow>
                         if truthy star_temp then Some (star_type_from_temp (the star_temp))
                         else None)
              in case star_type_opt of
                   Some t \<Rightarrow>
                     if truthy star_temp then
                       Inr \<lparr>star_answer = Star_type_temp t (the star_temp),
                            star_temperature = star_temp, star_type = t\<rparr>
                     else
                       Inr \<lparr>star_answer = Star_type_only t, star_temperature = None,
                            star_type = t\<rparr>
                 | None \<Rightarrow>
                     if truthy star_temp then
                       Inr \<lparr>star_answer = Star_temp_only (the star_temp),
                            star_temperature = star_temp, star_type = ''Unknown''\<rparr>
                     else
                       Inr \<lparr>star_answer = Star_insufficient, star_temperature = None,
                            star_type = ''Unknown''\<rparr>))"

definition analyze_exoplanet :: "planet_data \<Rightarrow> py_error + explanation" where
  "analyze_exoplanet planet_data =
     (case habitability_section planet_data of
        Inl e \<Rightarrow> Inl e
      | Inr hab \<Rightarrow>
     (case gravity_section planet_data of
        Inl e \<Rightarrow> Inl e
      | Inr grav \<Rightarrow>
     (case star_section planet_data of
        Inl e \<Rightarrow> Inl e
      | Inr star \<Rightarrow>
          Inr \<lparr>planet_name = get_or (pl_name planet_data) ''Unnamed planet'',
               host_star = get_or (hostname planet_data) ''Unknown star'',
               discovery_method = get_or (discoverymethod planet_data) ''Unknown method'',
               discovery_year =
                 (case disc_year planet_data of
                    Missing \<Rightarrow> Some Unknown_year
                  | Null \<Rightarrow> None
                  | Val y \<Rightarrow> Some (Year y)),
               distance = distance_section planet_data,
               habitability = hab,
               planet_type_info = planet_type_section planet_data,
               size_info = size_section planet_data,
               mass_info = mass_section planet_data,
               gravity = grav,
               year_length = year_section planet_data,
               star_type_info = star\<rparr>)))"

section \<open>process_exoplanet_data: the loop over the records\<close>

text \<open>
  The loop of \<open>process_exoplanet_data\<close> over a list of records. The state is what the
  loop updates: the list \<open>results\<close>, the set \<open>processed_planets\<close>, and the lines it prints.
  An exception of \<open>analyze_exoplanet\<close> is caught inside the loop. Reading the input file
  and writing the output file are outside the model.
\<close>

datatype diagnostic =
    Skipping_duplicate "string option"
  | Processed_planet "string option"
  | Error_processing "string option" py_error

record loop_state =
  results :: "explanation list"
  processed_planets :: "string option set"
  printed :: "diagnostic list"

definition initial_state :: loop_state where
  "initial_state = \<lparr>results = [], processed_planets = {}, printed = []\<rparr>"

definition process_planet :: "loop_state \<Rightarrow> planet_data \<Rightarrow> loop_state" where
  "process_planet s planet =
     (let name = get (pl_name planet)
      in if name \<in> processed_planets s then
           s\<lparr>printed := printed s @ [Skipping_duplicate name]\<rparr>
         else
           (case analyze_exoplanet planet of
              Inr planet_result \<Rightarrow>
                \<lparr>results = results s @ [planet_result],
                 processed_planets = insert name (processed_planets s),
                 printed = printed s @ [Processed_planet name]\<rparr>
            | Inl e \<Rightarrow> s\<lparr>printed := printed s @ [Error_processing name e]\<rparr>))"

definition process_planets :: "planet_data list \<Rightarrow> loop_state" where
  "process_planets data = foldl process_planet initial_state data"

section \<open>Records used as concrete inputs\<close>

definition blank_record :: planet_data where
  "blank_record =
     \<lparr>pl_name = Missing, hostname = Missing, discoverymethod = Missing, disc_year = Missing,
      st_rad = None, st_teff = None, st_lum = None, st_spectype = None, pl_orbsmax = None,
      sy_plx = None, sy_dist = None, pl_bmassj = None, pl_bmasse = None, pl_msinij = None,
      pl_msinie = None, pl_rade = None, pl_radj = None, pl_orbper = None\<rparr>"

text \<open>A planet at 1 AU from a star of luminosity 1 and temperature 5700 K.\<close>

definition sun_like_record :: planet_data where
  "sun_like_record = blank_record\<lparr>st_teff := Some 5700, st_lum := Some 1, pl_orbsmax := Some 1\<rparr>"

text \<open>A planet of one Earth mass and one Earth radius, given in Earth units.\<close>

definition earth_twin_record :: planet_data where
  "earth_twin_record = blank_record\<lparr>pl_bmasse := Some 1, pl_rade := Some 1\<rparr>"

text \<open>An Earth twin at 1 AU from the star of \<open>sun_like_record\<close>.\<close>

definition habitable_twin_record :: planet_data where
  "habitable_twin_record = sun_like_record\<lparr>pl_bmasse := Some 1, pl_rade := Some 1\<rparr>"

text \<open>A record whose luminosity, direct distance and mass are present and equal to zero.\<close>

definition zero_record :: planet_data where
  "zero_record =
     blank_record\<lparr>st_teff := Some 5700, st_lum := Some 0, pl_orbsmax := Some 1,
                  sy_dist := Some 0, pl_bmasse := Some 0, pl_rade := Some 1\<rparr>"

text \<open>Temperature 5700 K, stellar radius 1, no luminosity, the planet at 1 AU.\<close>

definition scenario_b_record :: planet_data where
  "scenario_b_record =
     blank_record\<lparr>st_rad := Some 1, st_teff := Some 5700, pl_orbsmax := Some 1\<rparr>"

text \<open>Both mass fields present and in disagreement: one Earth mass, one Jupiter mass.\<close>

definition two_masses_record :: planet_data where
  "two_masses_record =
     sun_like_record\<lparr>pl_bmassj := Some 1, pl_bmasse := Some 1, pl_rade := Some 1\<rparr>"

text \<open>Only a minimum mass (five Earth masses) and an Earth radius.\<close>

definition minimum_mass_record :: planet_data where
  "minimum_mass_record = blank_record\<lparr>pl_msinie := Some 5, pl_rade := Some 1\<rparr>"

text \<open>
  Three records named "Kepler-42 b": the first two around the star of \<open>sun_like_record\<close>
  at 1 AU and at 1.5 AU, the third around a star of 30000 K.
\<close>

definition kepler_first :: planet_data where
  "kepler_first = sun_like_record\<lparr>pl_name := Val ''Kepler-42 b''\<rparr>"

definition kepler_second :: planet_data where
  "kepler_second = sun_like_record\<lparr>pl_name := Val ''Kepler-42 b'', pl_orbsmax := Some 1.5\<rparr>"

definition kepler_hot :: planet_data where
  "kepler_hot = sun_like_record\<lparr>pl_name := Val ''Kepler-42 b'', st_teff := Some 30000\<rparr>"

section \<open>The entries for insufficient data\<close>

definition insufficient_distance :: distance_entry where
  "insufficient_distance =
     \<lparr>distance_answer = Distance_insufficient, distance_value = None,
      distance_unit = ''light years''\<rparr>"

definition insufficient_gravity :: gravity_entry where
  "insufficient_gravity = \<lparr>gravity_answer = Gravity_insufficient, earth_gravity_ratio = None\<rparr>"

section \<open>The decision table as the specification words it\<close>

text \<open>
  The both-known table of the specification, in its order: mass below 0.1 is Sub-Earth;
  mass below 2 and radius below 1.5 is Earth-like; mass below 10 and radius below 2.5 is
  Super-Earth; mass below 50 and radius below 6 is Mini-Neptune; mass below 500 is
  Neptune-like; anything else is Jupiter-like.
\<close>

definition spec_both_known_table :: "real \<Rightarrow> real \<Rightarrow> string" where
  "spec_both_known_table mass radius =
     (if mass < 0.1 then ''Sub-Earth/Mercury-like''
      else if mass < 2 \<and> radius < 1.5 then ''Earth-like terrestrial planet''
      else if mass < 10 \<and> radius < 2.5 then ''Super-Earth''
      else if mass < 50 \<and> radius < 6 then ''Mini-Neptune/Gas Dwarf''
      else if mass < 500 then ''Neptune-like gas giant''
      else ''Jupiter-like gas giant'')"

section \<open>The field resolver as the specification words it\<close>

text \<open>
  Priority for the mass: Earth-mass field, then Jupiter-mass field times 317.8, then Earth
  minimum-mass field, then Jupiter minimum-mass field times 317.8. For the radius:
  Earth-radius field, then Jupiter-radius field times 11.2.
\<close>

definition spec_resolve_mass :: "planet_data \<Rightarrow> real option" where
  "spec_resolve_mass p =
     (case pl_bmasse p of
        Some m \<Rightarrow> Some m
      | None \<Rightarrow>
     (case pl_bmassj p of
        Some j \<Rightarrow> Some (j * 317.8)
      | None \<Rightarrow>
     (case pl_msinie p of
        Some m \<Rightarrow> Some m
      | None \<Rightarrow>
     (case pl_msinij p of
        Some j \<Rightarrow> Some (j * 317.8)
      | None \<Rightarrow> None))))"

definition spec_resolve_radius :: "planet_data \<Rightarrow> real option" where
  "spec_resolve_radius p =
     (case pl_rade p of
        Some r \<Rightarrow> Some r
      | None \<Rightarrow>
     (case pl_radj p of
        Some j \<Rightarrow> Some (j * 11.2)
      | None \<Rightarrow> None))"

section \<open>The measured mass\<close>

text \<open>
  The measured mass in the order \<open>is_planet_habitable\<close> and \<open>calculate_surface_gravity\<close>
  read it: the Jupiter-mass field times 317.8 when it is present, else the Earth-mass field.
\<close>

definition measured_mass :: "planet_data \<Rightarrow> real option" where
  "measured_mass p =
     (case pl_bmassj p of
        Some j \<Rightarrow> Some (j * 317.8)
      | None \<Rightarrow> pl_bmasse p)"

section \<open>Records whose analysis returns\<close>

definition succeeds :: "planet_data \<Rightarrow> bool" where
  "succeeds p = (case analyze_exoplanet p of Inl e \<Rightarrow> False | Inr r \<Rightarrow> True)"

text \<open>The names (\<open>planet.get('pl_name')\<close>) of the records of a list whose analysis returns.\<close>

definition analysed_names :: "planet_data list \<Rightarrow> string option set" where
  "analysed_names ps = (\<lambda>q. get (pl_name q)) ` {q \<in> set ps. succeeds q}"

section \<open>Shared facts\<close>

lemma habitable_zone_of_sun: "calculate_habitable_zone 1 5700 = Inr (0.72, 1.77)"
  by (simp add: calculate_habitable_zone_def py_div_def py_sqrt_def inner_denominator_def
      outer_denominator_def ts_def ris_def ros_def)

lemma in_zone_test:
  "is_planet_habitable d ri ro pm pr \<noteq> ''Not in habitable zone'' \<longleftrightarrow> (ri \<le> d \<and> d \<le> ro)"
  by (simp add: is_planet_habitable_def Let_def)

lemma hz_position_total: "hz_position x \<noteq> Inl e"
  by (auto simp add: hz_position_def)

lemma habitability_section_computed:
  assumes "effective_luminosity p = Some L" and "st_teff p = Some T" and "pl_orbsmax p = Some d"
    and "L \<noteq> 0" and "T \<noteq> 0" and "d \<noteq> 0"
    and "calculate_habitable_zone L T = Inr (ri, ro)" and "ri \<noteq> ro"
  shows "\<exists>h. habitability_section p = Inr h
           \<and> inner_habitable_boundary h = Some ri \<and> outer_habitable_boundary h = Some ro
           \<and> actual_distance h = Some d
           \<and> assessment h = is_planet_habitable d ri ro p p"
proof -
  have "\<exists>z. calculate_hzd d ri ro = Inr z"
    using assms(8) by (simp add: calculate_hzd_def py_div_def Let_def)
  then obtain z where z: "calculate_hzd d ri ro = Inr z" ..
  obtain s where s: "hz_position z = Inr s"
    using hz_position_total [of z] by (cases "hz_position z") auto
  show ?thesis
    using assms z s by (simp add: habitability_section_def truthy_def Let_def)
qed

section \<open>The normalised habitable-zone distance\<close>

text \<open>
  In exact arithmetic, for bounds \<open>ri < ro\<close> the quotient lies in [-1, 1] exactly when
  \<open>ri \<le> d \<le> ro\<close>, the in-zone test of \<open>is_planet_habitable\<close>.
\<close>

lemma exact_hzd_unit_interval_iff_in_zone:
  assumes "ri < ro"
  shows "\<exists>hzd. calculate_hzd d ri ro = Inr hzd
           \<and> ((- 1 \<le> hzd \<and> hzd \<le> 1) \<longleftrightarrow> (ri \<le> d \<and> d \<le> ro))
           \<and> ((- 1 \<le> hzd \<and> hzd \<le> 1) \<longleftrightarrow>
                is_planet_habitable d ri ro pm pr \<noteq> ''Not in habitable zone'')
           \<and> (hz_position hzd = Inr ''within the habitable zone'' \<longleftrightarrow> (ri \<le> d \<and> d \<le> ro))"
proof -
  let ?h = "(d - (ri + ro) / 2) / ((ro - ri) / 2)"
  have pos: "0 < (ro - ri) / 2"
    using assms by simp
  have eq: "calculate_hzd d ri ro = Inr ?h"
    using assms by (simp add: calculate_hzd_def py_div_def Let_def)
  have lo: "- 1 \<le> ?h \<longleftrightarrow> ri \<le> d"
    using pos by (simp add: field_simps)
  have hi: "?h \<le> 1 \<longleftrightarrow> d \<le> ro"
    using pos by (simp add: field_simps)
  have posn: "hz_position ?h = Inr ''within the habitable zone'' \<longleftrightarrow> (- 1 \<le> ?h \<and> ?h \<le> 1)"
    by (auto simp add: hz_position_def)
  show ?thesis
    using eq lo hi posn in_zone_test [of d ri ro pm pr] by blast
qed

lemma pow2_powr: "pow2 e = 2 powr (of_int e)"
  by (simp add: pow2_def powr_int)

lemma binade_eqI:
  assumes "pow2 e \<le> \<bar>x\<bar>" and "\<bar>x\<bar> < pow2 (e + 1)"
  shows "binade x = e"
proof -
  have "0 < pow2 e"
    by (simp add: pow2_def)
  then have pos: "0 < \<bar>x\<bar>"
    using assms(1) by linarith
  have "2 powr (of_int e) \<le> \<bar>x\<bar> \<and> \<bar>x\<bar> < 2 powr (of_int (e + 1))"
    using assms by (simp add: pow2_powr)
  then show ?thesis
    unfolding binade_def using floor_log_eq_powr_iff [of "\<bar>x\<bar>" 2 e] pos by simp
qed

lemma double_in_binade:
  assumes "pow2 e \<le> \<bar>x\<bar>" and "\<bar>x\<bar> < pow2 (e + 1)" and "- 1022 \<le> e"
  shows "double x = of_int (round_half_even (x / pow2 (e - 52))) * pow2 (e - 52)"
proof -
  have "0 < pow2 e"
    by (simp add: pow2_def)
  then have "x \<noteq> 0"
    using assms(1) by auto
  moreover have "max (binade x) (- 1022) = e"
    using binade_eqI [OF assms(1,2)] assms(3) by simp
  ultimately show ?thesis
    by (simp add: double_def Let_def)
qed

text \<open>The decimal numbers 0.72 and 1.77 as the source holds them.\<close>

lemma double_inner_boundary: "double 0.72 = 6485183463413514 / 2 ^ 53"
  using double_in_binade [of "- 1" "0.72"]
  by (simp add: pow2_def round_half_even_def Let_def)

lemma double_outer_boundary: "double 1.77 = 7971371340445778 / 2 ^ 52"
  using double_in_binade [of 0 "1.77"]
  by (simp add: pow2_def round_half_even_def Let_def)

text \<open>The steps of \<open>calculate_hzd_double\<close> at d = ri = 0.72 and ro = 1.77.\<close>

lemma boundary_sum_rounded:
  "double (6485183463413514 / 2 ^ 53 + 7971371340445778 / 2 ^ 52) = 5606981536076268 / 2 ^ 51"
  using double_in_binade [of 1 "6485183463413514 / 2 ^ 53 + 7971371340445778 / 2 ^ 52"]
  by (simp add: pow2_def round_half_even_def Let_def)

lemma boundary_centre_rounded:
  "double (5606981536076268 / 2 ^ 51 / 2) = 5606981536076268 / 2 ^ 52"
  using double_in_binade [of 0 "5606981536076268 / 2 ^ 51 / 2"]
  by (simp add: pow2_def round_half_even_def Let_def)

lemma boundary_width_rounded:
  "double (7971371340445778 / 2 ^ 52 - 6485183463413514 / 2 ^ 53) = 4728779608739021 / 2 ^ 52"
  using double_in_binade [of 0 "7971371340445778 / 2 ^ 52 - 6485183463413514 / 2 ^ 53"]
  by (simp add: pow2_def round_half_even_def Let_def)

lemma boundary_half_width_rounded:
  "double (4728779608739021 / 2 ^ 52 / 2) = 4728779608739021 / 2 ^ 53"
  using double_in_binade [of "- 1" "4728779608739021 / 2 ^ 52 / 2"]
  by (simp add: pow2_def round_half_even_def Let_def)

lemma boundary_offset_rounded:
  "double (6485183463413514 / 2 ^ 53 - 5606981536076268 / 2 ^ 52)
     = - (4728779608739022 / 2 ^ 53)"
  using double_in_binade [of "- 1" "6485183463413514 / 2 ^ 53 - 5606981536076268 / 2 ^ 52"]
  by (simp add: pow2_def round_half_even_def Let_def)

lemma boundary_quotient_rounded:
  "double (- (4728779608739022 / 2 ^ 53) / (4728779608739021 / 2 ^ 53)) = - (1 + 1 / 2 ^ 52)"
  using double_in_binade [of 0 "- (4728779608739022 / 2 ^ 53) / (4728779608739021 / 2 ^ 53)"]
  by (simp add: pow2_def round_half_even_def Let_def)

text \<open>
  Claim C6, on the inner boundary in double precision. For the planet at d = 0.72 AU with
  the bounds ri = 0.72 and ro = 1.77 (luminosity 1 at 5700 K), the in-zone test
  \<open>ri \<le> d \<le> ro\<close> holds and the classifier answers "Potentially habitable", while the
  normalised distance the source computes is -(1 + 2^-52), below -1, and the position
  sentence reads "too close to its star (too hot)". The claim has the normalised distance in
  [-1, 1] there, as the exact quotient -1 is.
\<close>

theorem hzd_at_inner_boundary:
  "double 0.72 = 6485183463413514 / 2 ^ 53
   \<and> double 1.77 = 7971371340445778 / 2 ^ 52
   \<and> calculate_hzd_double (double 0.72) (double 0.72) (double 1.77) = Inr (- (1 + 1 / 2 ^ 52))
   \<and> hz_position (- (1 + 1 / 2 ^ 52)) = Inr ''too close to its star (too hot)''
   \<and> is_planet_habitable (double 0.72) (double 0.72) (double 1.77) blank_record blank_record
        = ''Potentially habitable''
   \<and> calculate_hzd 0.72 0.72 1.77 = Inr (- 1)"
proof -
  have h: "calculate_hzd_double (double 0.72) (double 0.72) (double 1.77)
             = Inr (- (1 + 1 / 2 ^ 52))"
    unfolding calculate_hzd_double_def double_inner_boundary double_outer_boundary
      boundary_sum_rounded boundary_centre_rounded boundary_width_rounded
      boundary_half_width_rounded Let_def boundary_offset_rounded
    using boundary_quotient_rounded by (simp add: py_div_def)
  have p: "hz_position (- (1 + 1 / 2 ^ 52)) = Inr ''too close to its star (too hot)''"
    by (simp add: hz_position_def)
  have c: "is_planet_habitable (double 0.72) (double 0.72) (double 1.77) blank_record blank_record
             = ''Potentially habitable''"
    unfolding double_inner_boundary double_outer_boundary
    by (simp add: is_planet_habitable_def habitable_mass_suitable_def habitable_size_suitable_def
        blank_record_def Let_def)
  have e: "calculate_hzd 0.72 0.72 1.77 = Inr (- 1)"
    by (simp add: calculate_hzd_def py_div_def Let_def)
  show ?thesis
    using double_inner_boundary double_outer_boundary h p c e by blast
qed

section \<open>Planet type when mass and radius are both known\<close>

text \<open>
  Claim C7. Whenever \<open>get_planet_type\<close> extracts both a mass \<open>m\<close> (Earth units) and a
  radius \<open>r\<close> (Earth units) from its arguments, its label is the one of the both-known
  decision table read in order: m < 0.1 Sub-Earth, else m < 2 and r < 1.5 Earth-like, else
  m < 10 and r < 2.5 Super-Earth, else m < 50 and r < 6 Mini-Neptune, else m < 500
  Neptune-like, else Jupiter-like. In particular m = 1 and r = 1 give the Earth-like label.
\<close>

theorem get_planet_type_both_known:
  assumes "type_earth_mass pm = Some m" and "type_earth_radius pr = Some r"
  shows "get_planet_type pm pr = spec_both_known_table m r
         \<and> (m = 1 \<and> r = 1 \<longrightarrow> get_planet_type pm pr = ''Earth-like terrestrial planet'')"
  using assms by (simp add: get_planet_type_def spec_both_known_table_def)

theorem get_planet_type_both_known_witness:
  "type_earth_mass earth_twin_record = Some 1
   \<and> type_earth_radius earth_twin_record = Some 1
   \<and> get_planet_type earth_twin_record earth_twin_record = ''Earth-like terrestrial planet''"
proof -
  have m: "type_earth_mass earth_twin_record = Some 1"
    by (simp add: type_earth_mass_def earth_twin_record_def blank_record_def)
  have r: "type_earth_radius earth_twin_record = Some 1"
    by (simp add: type_earth_radius_def earth_twin_record_def blank_record_def)
  from get_planet_type_both_known [OF m r] m r show ?thesis
    by blast
qed

section \<open>Distance from a parallax\<close>

lemma positive_parallax_distance:
  "0 < plx \<Longrightarrow>
     calculate_earth_distance_light_years (Some plx) None = Some ((1000 / plx) * 3.26)
     \<and> parallax_to_light_years (Some plx) = Some ((1000 / plx) * 3.26)"
  by (simp add: calculate_earth_distance_light_years_def parallax_to_light_years_def
      PARSEC_TO_LIGHT_YEAR_def)

lemma missing_or_zero_parallax_distance:
  "calculate_earth_distance_light_years None None = None
   \<and> calculate_earth_distance_light_years (Some 0) None = None
   \<and> parallax_to_light_years None = None
   \<and> (plx \<le> 0 \<longrightarrow> parallax_to_light_years (Some plx) = None)"
  by (simp add: calculate_earth_distance_light_years_def parallax_to_light_years_def)

text \<open>
  Claim C3, at a negative parallax. With a parallax of -1 mas and no direct distance,
  \<open>calculate_earth_distance_light_years\<close> of layman.py returns -3260 light-years, and the
  explanation prints it as the distance, where the claim has the result absent;
  \<open>parallax_to_light_years\<close> of app.py returns no value at the same parallax.
\<close>

theorem negative_parallax_distance:
  "calculate_earth_distance_light_years (Some (- 1)) None = Some (- 3260)
   \<and> distance_section (blank_record\<lparr>sy_plx := Some (- 1)\<rparr>)
       = \<lparr>distance_answer = Distance_is (- 3260), distance_value = Some (- 3260),
          distance_unit = ''light years''\<rparr>
   \<and> parallax_to_light_years (Some (- 1)) = None"
  by (simp add: calculate_earth_distance_light_years_def distance_section_def blank_record_def
      parallax_to_light_years_def)

section \<open>Zero counts as missing\<close>

lemma analyze_exoplanet_sections:
  "analyze_exoplanet p = Inr r \<Longrightarrow>
     habitability_section p = Inr (habitability r) \<and> distance r = distance_section p
     \<and> gravity_section p = Inr (gravity r)"
  by (auto simp add: analyze_exoplanet_def split: sum.splits)

text \<open>
  Claim C10. Presence is tested by truthiness. For every record: a stellar luminosity of 0
  gives the habitability entry "Unknown" with the insufficient-data sentence; a computed
  distance of 0 light-years gives the insufficient-data distance entry; a computed gravity
  ratio of 0 gives the insufficient-data gravity entry. These are the entries of the record
  \<open>analyze_exoplanet\<close> returns.
\<close>

theorem zero_is_treated_as_missing:
  "(st_lum p = Some 0 \<longrightarrow> habitability_section p = Inr unknown_habitability)
   \<and> (calculate_earth_distance_light_years (sy_plx p) (sy_dist p) = Some 0 \<longrightarrow>
        distance_section p = insufficient_distance)
   \<and> (calculate_surface_gravity p p = Inr (Some 0) \<longrightarrow>
        gravity_section p = Inr insufficient_gravity)
   \<and> (analyze_exoplanet p = Inr r \<longrightarrow>
        habitability_section p = Inr (habitability r) \<and> distance r = distance_section p
        \<and> gravity_section p = Inr (gravity r))"
  using analyze_exoplanet_sections [of p r]
  by (simp add: habitability_section_def effective_luminosity_def truthy_def
      distance_section_def gravity_section_def Let_def insufficient_distance_def
      insufficient_gravity_def)

theorem zero_is_treated_as_missing_witness:
  "st_lum zero_record = Some 0
   \<and> calculate_earth_distance_light_years (sy_plx zero_record) (sy_dist zero_record) = Some 0
   \<and> calculate_surface_gravity zero_record zero_record = Inr (Some 0)
   \<and> (\<exists>r. analyze_exoplanet zero_record = Inr r
         \<and> assessment (habitability r) = ''Unknown''
         \<and> distance_answer (distance r) = Distance_insufficient
         \<and> gravity_answer (gravity r) = Gravity_insufficient)"
proof -
  have l: "st_lum zero_record = Some 0"
    by (simp add: zero_record_def blank_record_def)
  have d: "calculate_earth_distance_light_years (sy_plx zero_record) (sy_dist zero_record) = Some 0"
    by (simp add: zero_record_def blank_record_def calculate_earth_distance_light_years_def)
  have g: "calculate_surface_gravity zero_record zero_record = Inr (Some 0)"
    by (simp add: zero_record_def blank_record_def calculate_surface_gravity_def
        gravity_earth_mass_def gravity_earth_radius_def py_div_def)
  have "\<exists>st. star_section zero_record = Inr st"
    by (simp add: zero_record_def blank_record_def star_section_def
        get_star_type_from_spectype_def truthy_def Let_def)
  then obtain st where st: "star_section zero_record = Inr st" ..
  obtain r where r: "analyze_exoplanet zero_record = Inr r"
  proof -
    from zero_is_treated_as_missing [of zero_record undefined] l g st
    have "\<exists>r. analyze_exoplanet zero_record = Inr r"
      by (simp add: analyze_exoplanet_def)
    then show ?thesis using that by blast
  qed
  from zero_is_treated_as_missing [of zero_record r] l d g r
  have "habitability r = unknown_habitability" "distance r = insufficient_distance"
    "gravity r = insufficient_gravity"
    by auto
  then show ?thesis using l d g r
    by (simp add: unknown_habitability_def insufficient_distance_def insufficient_gravity_def)
qed

section \<open>Luminosity derived from radius and temperature\<close>

lemma habitable_zone_at_reference_temperature:
  "0 \<le> L \<Longrightarrow> calculate_habitable_zone L 5700 = Inr (0.72 * sqrt L, 1.77 * sqrt L)"
  by (simp add: calculate_habitable_zone_def py_div_def py_sqrt_def inner_denominator_def
      outer_denominator_def ts_def ris_def ros_def)

lemma sqrt_fourth_power: "sqrt ((x :: real) ^ 4) = x ^ 2"
proof -
  have "x ^ 4 = (x ^ 2) ^ 2"
    by (simp flip: power_mult)
  then show ?thesis
    by (simp add: real_sqrt_unique)
qed

lemma habitable_zone_of_derived_luminosity:
  "calculate_habitable_zone ((5700 / 5778) ^ 4) 5700
     = Inr (0.72 * (5700 / 5778) ^ 2, 1.77 * (5700 / 5778) ^ 2)"
  using habitable_zone_at_reference_temperature [of "(5700 / 5778) ^ 4"]
    sqrt_fourth_power [of "5700 / 5778"]
  by simp

text \<open>
  Claim C5 as stated fails: with temperature 5700 K, stellar radius 1 and no luminosity,
  \<open>parse_stellar_luminosity\<close> divides by the solar temperature 5778 K, so the derived
  luminosity is (5700/5778)^4, which is not 1, and both boundaries are smaller than 0.72
  and 1.77 AU.
\<close>

theorem scenario_b_counterexample:
  "parse_stellar_luminosity (Some 1) (Some 5700) = Some ((5700 / 5778) ^ 4)
   \<and> parse_stellar_luminosity (Some 1) (Some 5700) \<noteq> Some 1
   \<and> calculate_habitable_zone ((5700 / 5778) ^ 4) 5700
       = Inr (0.72 * (5700 / 5778) ^ 2, 1.77 * (5700 / 5778) ^ 2)
   \<and> 0.72 * (5700 / 5778) ^ 2 < (0.72 :: real)
   \<and> 1.77 * (5700 / 5778) ^ 2 < (1.77 :: real)"
  using habitable_zone_of_derived_luminosity
  by (simp add: parse_stellar_luminosity_def sun_temp_def power_divide)

text \<open>
  Claim C5, amended. For a record with temperature 5700 K, stellar radius 1, luminosity
  absent and an orbital distance present and not zero, the derived luminosity is
  (5700/5778)^4 (about 0.947) and the habitability entry holds the boundaries
  0.72 * (5700/5778)^2 (about 0.701 AU) and 1.77 * (5700/5778)^2 (about 1.723 AU).
  The boundaries 0.72 AU and 1.77 AU are those of luminosity 1 at 5700 K.
\<close>

theorem scenario_b_derived_luminosity:
  assumes "st_lum p = None" and "st_rad p = Some 1" and "st_teff p = Some 5700"
    and "pl_orbsmax p = Some d" and "d \<noteq> 0"
  shows "effective_luminosity p = Some ((5700 / 5778) ^ 4)
         \<and> (\<exists>h. habitability_section p = Inr h
               \<and> inner_habitable_boundary h = Some (0.72 * (5700 / 5778) ^ 2)
               \<and> outer_habitable_boundary h = Some (1.77 * (5700 / 5778) ^ 2))
         \<and> calculate_habitable_zone 1 5700 = Inr (0.72, 1.77)"
proof -
  have lum: "effective_luminosity p = Some ((5700 / 5778) ^ 4)"
    using assms
    by (simp add: effective_luminosity_def truthy_def parse_stellar_luminosity_def sun_temp_def)
  have "\<exists>z. calculate_hzd d (0.72 * (5700 / 5778) ^ 2) (1.77 * (5700 / 5778) ^ 2) = Inr z"
    by (simp add: calculate_hzd_def py_div_def Let_def)
  then obtain z
    where z: "calculate_hzd d (0.72 * (5700 / 5778) ^ 2) (1.77 * (5700 / 5778) ^ 2) = Inr z" ..
  obtain s where s: "hz_position z = Inr s"
    using hz_position_total [of z] by (cases "hz_position z") auto
  have "\<exists>h. habitability_section p = Inr h
               \<and> inner_habitable_boundary h = Some (0.72 * (5700 / 5778) ^ 2)
               \<and> outer_habitable_boundary h = Some (1.77 * (5700 / 5778) ^ 2)"
    using assms lum habitable_zone_of_derived_luminosity z s
    by (simp add: habitability_section_def truthy_def Let_def)
  then show ?thesis
    using lum habitable_zone_of_sun by simp
qed

theorem scenario_b_derived_luminosity_witness:
  "st_lum scenario_b_record = None \<and> st_rad scenario_b_record = Some 1
   \<and> st_teff scenario_b_record = Some 5700 \<and> pl_orbsmax scenario_b_record = Some 1
   \<and> effective_luminosity scenario_b_record = Some ((5700 / 5778) ^ 4)
   \<and> (\<exists>h. habitability_section scenario_b_record = Inr h
         \<and> inner_habitable_boundary h = Some (0.72 * (5700 / 5778) ^ 2)
         \<and> outer_habitable_boundary h = Some (1.77 * (5700 / 5778) ^ 2))"
proof -
  have a: "st_lum scenario_b_record = None" "st_rad scenario_b_record = Some 1"
    "st_teff scenario_b_record = Some 5700" "pl_orbsmax scenario_b_record = Some 1"
    by (simp_all add: scenario_b_record_def blank_record_def)
  have b: "(1 :: real) \<noteq> 0"
    by simp
  from scenario_b_derived_luminosity [OF a b] a show ?thesis
    by blast
qed

section \<open>Which mass field is read\<close>

lemma mass_sentence_reads_earth_mass_first:
  "truthy (pl_bmasse p) \<Longrightarrow> earth_mass_ratio (mass_section p) = pl_bmasse p"
  by (simp add: mass_section_def)

text \<open>
  Claim C2 as stated fails: on a record with both mass fields present (one Earth mass, one
  Jupiter mass) the planet type, the surface gravity and the habitability mass check all
  use the Jupiter-mass field times 317.8; the results the Earth-mass field would give are
  those of the same record without the Jupiter-mass field.
\<close>

theorem jupiter_mass_read_first_counterexample:
  "pl_bmasse two_masses_record = Some 1 \<and> pl_bmassj two_masses_record = Some 1
   \<and> type_earth_mass two_masses_record = Some 317.8
   \<and> get_planet_type two_masses_record two_masses_record = ''Neptune-like gas giant''
   \<and> get_planet_type (two_masses_record\<lparr>pl_bmassj := None\<rparr>) two_masses_record
        = ''Earth-like terrestrial planet''
   \<and> calculate_surface_gravity two_masses_record two_masses_record = Inr (Some 317.8)
   \<and> calculate_surface_gravity (two_masses_record\<lparr>pl_bmassj := None\<rparr>) two_masses_record
        = Inr (Some 1)
   \<and> is_planet_habitable 1 0.72 1.77 two_masses_record two_masses_record
        = ''In habitable zone but may not have right mass/size for habitability''
   \<and> is_planet_habitable 1 0.72 1.77 (two_masses_record\<lparr>pl_bmassj := None\<rparr>) two_masses_record
        = ''Potentially habitable''"
  by (simp add: two_masses_record_def sun_like_record_def blank_record_def
      type_earth_mass_def type_earth_radius_def get_planet_type_def
      calculate_surface_gravity_def gravity_earth_mass_def gravity_earth_radius_def py_div_def
      is_planet_habitable_def habitable_mass_suitable_def habitable_size_suitable_def Let_def)

text \<open>
  Claim C2, amended. For every record whose Jupiter-mass field is present, the planet-type
  classification, the habitability mass check and the surface gravity resolve the mass as
  that field times 317.8, whatever the Earth-mass field holds; the Earth-mass field is the
  mass they use when the Jupiter-mass field is absent.
\<close>

theorem jupiter_mass_read_first:
  "(pl_bmassj p = Some j \<longrightarrow>
      type_earth_mass p = Some (j * 317.8)
      \<and> gravity_earth_mass p = Some (j * 317.8)
      \<and> habitable_mass_suitable p = (0.1 \<le> j * 317.8 \<and> j * 317.8 \<le> 10)
      \<and> get_planet_type (p\<lparr>pl_bmasse := e\<rparr>) pr = get_planet_type p pr
      \<and> calculate_surface_gravity (p\<lparr>pl_bmasse := e\<rparr>) pr = calculate_surface_gravity p pr
      \<and> is_planet_habitable d ri ro (p\<lparr>pl_bmasse := e\<rparr>) pr = is_planet_habitable d ri ro p pr)
   \<and> (pl_bmassj p = None \<and> pl_bmasse p = Some m \<longrightarrow>
      type_earth_mass p = Some m
      \<and> gravity_earth_mass p = Some m
      \<and> habitable_mass_suitable p = (0.1 \<le> m \<and> m \<le> 10))"
  by (simp add: type_earth_mass_def gravity_earth_mass_def habitable_mass_suitable_def
      get_planet_type_def calculate_surface_gravity_def is_planet_habitable_def Let_def)

theorem jupiter_mass_read_first_witness:
  "pl_bmassj two_masses_record = Some 1
   \<and> type_earth_mass two_masses_record = Some 317.8
   \<and> gravity_earth_mass two_masses_record = Some 317.8
   \<and> \<not> habitable_mass_suitable two_masses_record
   \<and> pl_bmassj earth_twin_record = None \<and> pl_bmasse earth_twin_record = Some 1
   \<and> type_earth_mass earth_twin_record = Some 1
   \<and> gravity_earth_mass earth_twin_record = Some 1
   \<and> habitable_mass_suitable earth_twin_record"
proof -
  have a: "pl_bmassj two_masses_record = Some 1"
    by (simp add: earth_twin_record_def two_masses_record_def sun_like_record_def
        blank_record_def)
  have b: "pl_bmassj earth_twin_record = None \<and> pl_bmasse earth_twin_record = Some 1"
    by (simp add: earth_twin_record_def two_masses_record_def sun_like_record_def
        blank_record_def)
  from jupiter_mass_read_first [of two_masses_record 1 None two_masses_record 1 0 0 1]
    jupiter_mass_read_first [of earth_twin_record 1 None earth_twin_record 1 0 0 1] a b
  show ?thesis
    by simp
qed

section \<open>Surface gravity\<close>

text \<open>
  Claim C8 as stated fails: a record with only a minimum mass (five Earth masses) and an
  Earth radius has both quantities resolved by the resolver's priority order, and
  \<open>calculate_surface_gravity\<close> returns no value for it.
\<close>

theorem gravity_ignores_minimum_mass_counterexample:
  "spec_resolve_mass minimum_mass_record = Some 5
   \<and> spec_resolve_radius minimum_mass_record = Some 1
   \<and> calculate_surface_gravity minimum_mass_record minimum_mass_record = Inr None"
  by (simp add: minimum_mass_record_def blank_record_def spec_resolve_mass_def
      spec_resolve_radius_def
      calculate_surface_gravity_def gravity_earth_mass_def gravity_earth_radius_def)

text \<open>
  Claim C8, amended. The surface-gravity ratio equals mass / radius^2 whenever a measured
  mass (Jupiter-mass field times 317.8, else Earth-mass field) and a radius (Earth-radius
  field, else Jupiter-radius field times 11.2) are both present and the radius is not zero;
  it is absent whenever either is absent; the minimum-mass fields are not read. Mass 1 and
  radius 1 give the ratio 1.
\<close>

theorem gravity_from_measured_mass:
  "gravity_earth_mass pm = measured_mass pm
   \<and> gravity_earth_radius pr = spec_resolve_radius pr
   \<and> (measured_mass pm = Some m \<and> spec_resolve_radius pr = Some r \<and> r \<noteq> 0 \<longrightarrow>
        calculate_surface_gravity pm pr = Inr (Some (m / r ^ 2)))
   \<and> (measured_mass pm = None \<or> spec_resolve_radius pr = None \<longrightarrow>
        calculate_surface_gravity pm pr = Inr None)
   \<and> (measured_mass pm = Some 1 \<and> spec_resolve_radius pr = Some 1 \<longrightarrow>
        calculate_surface_gravity pm pr = Inr (Some 1))
   \<and> calculate_surface_gravity (pm\<lparr>pl_msinie := a, pl_msinij := b\<rparr>) pr
        = calculate_surface_gravity pm pr"
  by (auto simp add: calculate_surface_gravity_def gravity_earth_mass_def gravity_earth_radius_def
      measured_mass_def spec_resolve_radius_def py_div_def split: option.splits)

theorem gravity_from_measured_mass_witness:
  "measured_mass earth_twin_record = Some 1 \<and> spec_resolve_radius earth_twin_record = Some 1
   \<and> calculate_surface_gravity earth_twin_record earth_twin_record = Inr (Some 1)
   \<and> measured_mass minimum_mass_record = None
   \<and> calculate_surface_gravity minimum_mass_record minimum_mass_record = Inr None"
proof -
  have a: "measured_mass earth_twin_record = Some 1 \<and> spec_resolve_radius earth_twin_record = Some 1"
    by (simp add: earth_twin_record_def minimum_mass_record_def blank_record_def
        measured_mass_def spec_resolve_radius_def)
  have b: "measured_mass minimum_mass_record = None"
    by (simp add: earth_twin_record_def minimum_mass_record_def blank_record_def
        measured_mass_def)
  from gravity_from_measured_mass [of earth_twin_record earth_twin_record 1 1 None None]
    gravity_from_measured_mass [of minimum_mass_record minimum_mass_record 1 1 None None] a b
  show ?thesis
    by simp
qed

section \<open>The habitability assessment\<close>

lemma habitable_mass_suitable_measured:
  "habitable_mass_suitable p \<longleftrightarrow>
     (case measured_mass p of None \<Rightarrow> True | Some m \<Rightarrow> 0.1 \<le> m \<and> m \<le> 10)"
  by (cases "pl_bmassj p"; cases "pl_bmasse p")
    (simp_all add: habitable_mass_suitable_def measured_mass_def Let_def)

lemma habitable_size_suitable_earth_radius:
  "habitable_size_suitable p \<longleftrightarrow>
     (case pl_rade p of None \<Rightarrow> True | Some r \<Rightarrow> 0.5 \<le> r \<and> r \<le> 2)"
  by (cases "pl_rade p") (simp_all add: habitable_size_suitable_def)

text \<open>
  The size check of \<open>is_planet_habitable\<close> does not read the Jupiter-radius field, which
  \<open>get_planet_type\<close> and \<open>calculate_surface_gravity\<close> do read: a planet of one Jupiter radius
  inside the zone is typed as a gas giant and passes the size check.
\<close>

lemma jupiter_radius_alone_passes_size_check:
  "spec_resolve_radius (sun_like_record\<lparr>pl_radj := Some 1\<rparr>) = Some 11.2
   \<and> get_planet_type (sun_like_record\<lparr>pl_radj := Some 1\<rparr>) (sun_like_record\<lparr>pl_radj := Some 1\<rparr>)
        = ''Neptune-like gas giant''
   \<and> is_planet_habitable 1 0.72 1.77 (sun_like_record\<lparr>pl_radj := Some 1\<rparr>)
        (sun_like_record\<lparr>pl_radj := Some 1\<rparr>) = ''Potentially habitable''"
  by (simp add: sun_like_record_def blank_record_def spec_resolve_radius_def get_planet_type_def
      type_earth_mass_def type_earth_radius_def is_planet_habitable_def
      habitable_mass_suitable_def habitable_size_suitable_def Let_def)

text \<open>
  Claim C1 as stated fails. A record with luminosity 1, temperature 5700 K, distance 1 AU
  (inside the zone from 0.72 to 1.77 AU), one Earth mass in the Earth-mass field, one
  Jupiter mass in the Jupiter-mass field and one Earth radius has a resolved mass of 1 and
  a resolved radius of 1, both inside their windows, and is assessed "In habitable zone but
  may not have right mass/size for habitability". A record whose luminosity is present and
  equal to 0 is assessed "Unknown".
\<close>

theorem habitability_assessment_counterexample:
  "effective_luminosity two_masses_record = Some 1 \<and> st_teff two_masses_record = Some 5700
   \<and> pl_orbsmax two_masses_record = Some 1
   \<and> calculate_habitable_zone 1 5700 = Inr (0.72, 1.77)
   \<and> spec_resolve_mass two_masses_record = Some 1
   \<and> spec_resolve_radius two_masses_record = Some 1
   \<and> map_sum id assessment (habitability_section two_masses_record)
        = Inr ''In habitable zone but may not have right mass/size for habitability''
   \<and> st_lum zero_record = Some 0 \<and> st_teff zero_record = Some 5700
   \<and> pl_orbsmax zero_record = Some 1
   \<and> map_sum id assessment (habitability_section zero_record) = Inr ''Unknown''"
  using habitable_zone_of_sun
  by (simp add: zero_record_def two_masses_record_def sun_like_record_def blank_record_def
      effective_luminosity_def spec_resolve_mass_def
      spec_resolve_radius_def habitability_section_def truthy_def calculate_hzd_def py_div_def
      hz_position_def is_planet_habitable_def habitable_mass_suitable_def
      habitable_size_suitable_def unknown_habitability_def Let_def)

lemma resolved_radius_is_earth_radius:
  "pl_rade p \<noteq> None \<or> pl_radj p = None \<Longrightarrow> spec_resolve_radius p = pl_rade p"
  by (cases "pl_rade p"; cases "pl_radj p") (simp_all add: spec_resolve_radius_def)

text \<open>
  Claim C1, amended. For every record: when any of the luminosity (given, or derived from
  stellar radius and temperature), the temperature and the orbital distance is absent or
  zero, the assessment is "Unknown". For every record whose radius is not given in Jupiter
  units alone and whose mass is not given as a minimum mass alone, with all three of L, T, d
  present and not zero and the zone formula yielding boundaries ri and ro that differ: the
  assessment is never "Unknown"; it is "Potentially habitable" exactly when ri <= d <= ro
  and (the mass is absent, or the mass in Earth units, taken from the Jupiter-mass field
  times 317.8 when that field is present and else from the Earth-mass field, lies in
  [0.1, 10]) and (the radius is absent or the resolved radius in Earth units lies in
  [0.5, 2.0]); it is "In habitable zone but may not have right mass/size for habitability"
  exactly when ri <= d <= ro and one of these two bounds is violated; it is
  "Not in habitable zone" exactly when d is outside [ri, ro].
\<close>

theorem habitability_assessment:
  "(\<not> (truthy (effective_luminosity p) \<and> truthy (st_teff p) \<and> truthy (pl_orbsmax p)) \<longrightarrow>
      habitability_section p = Inr unknown_habitability)
   \<and> (effective_luminosity p = Some L \<and> st_teff p = Some T \<and> pl_orbsmax p = Some d
        \<and> L \<noteq> 0 \<and> T \<noteq> 0 \<and> d \<noteq> 0
        \<and> calculate_habitable_zone L T = Inr (ri, ro) \<and> ri \<noteq> ro
        \<and> (pl_rade p \<noteq> None \<or> pl_radj p = None)
        \<and> (measured_mass p \<noteq> None \<or> (pl_msinie p = None \<and> pl_msinij p = None)) \<longrightarrow>
      (\<exists>h. habitability_section p = Inr h
         \<and> inner_habitable_boundary h = Some ri \<and> outer_habitable_boundary h = Some ro
         \<and> (assessment h = ''Potentially habitable'' \<longleftrightarrow>
              (ri \<le> d \<and> d \<le> ro)
              \<and> (case measured_mass p of None \<Rightarrow> True | Some m \<Rightarrow> 0.1 \<le> m \<and> m \<le> 10)
              \<and> (case spec_resolve_radius p of None \<Rightarrow> True | Some r \<Rightarrow> 0.5 \<le> r \<and> r \<le> 2))
         \<and> (assessment h = ''In habitable zone but may not have right mass/size for habitability''
              \<longleftrightarrow>
              (ri \<le> d \<and> d \<le> ro)
              \<and> \<not> ((case measured_mass p of None \<Rightarrow> True | Some m \<Rightarrow> 0.1 \<le> m \<and> m \<le> 10)
                    \<and> (case spec_resolve_radius p of
                          None \<Rightarrow> True
                        | Some r \<Rightarrow> 0.5 \<le> r \<and> r \<le> 2)))
         \<and> (assessment h = ''Not in habitable zone'' \<longleftrightarrow> \<not> (ri \<le> d \<and> d \<le> ro))
         \<and> assessment h \<noteq> ''Unknown''))"
proof (intro conjI impI)
  assume "\<not> (truthy (effective_luminosity p) \<and> truthy (st_teff p) \<and> truthy (pl_orbsmax p))"
  then show "habitability_section p = Inr unknown_habitability"
    by (auto simp add: habitability_section_def Let_def)
next
  assume a: "effective_luminosity p = Some L \<and> st_teff p = Some T \<and> pl_orbsmax p = Some d
        \<and> L \<noteq> 0 \<and> T \<noteq> 0 \<and> d \<noteq> 0
        \<and> calculate_habitable_zone L T = Inr (ri, ro) \<and> ri \<noteq> ro
        \<and> (pl_rade p \<noteq> None \<or> pl_radj p = None)
        \<and> (measured_mass p \<noteq> None \<or> (pl_msinie p = None \<and> pl_msinij p = None))"
  then obtain h where h: "habitability_section p = Inr h"
    "inner_habitable_boundary h = Some ri" "outer_habitable_boundary h = Some ro"
    "assessment h = is_planet_habitable d ri ro p p"
    using habitability_section_computed [of p L T d ri ro] by blast
  have rad: "spec_resolve_radius p = pl_rade p"
    using a resolved_radius_is_earth_radius [of p] by blast
  have lab: "is_planet_habitable d ri ro p p =
      (if ri \<le> d \<and> d \<le> ro then
         (if habitable_mass_suitable p \<and> habitable_size_suitable p then ''Potentially habitable''
          else ''In habitable zone but may not have right mass/size for habitability'')
       else ''Not in habitable zone'')"
    by (simp add: is_planet_habitable_def Let_def)
  show "\<exists>h. habitability_section p = Inr h
         \<and> inner_habitable_boundary h = Some ri \<and> outer_habitable_boundary h = Some ro
         \<and> (assessment h = ''Potentially habitable'' \<longleftrightarrow>
              (ri \<le> d \<and> d \<le> ro)
              \<and> (case measured_mass p of None \<Rightarrow> True | Some m \<Rightarrow> 0.1 \<le> m \<and> m \<le> 10)
              \<and> (case spec_resolve_radius p of None \<Rightarrow> True | Some r \<Rightarrow> 0.5 \<le> r \<and> r \<le> 2))
         \<and> (assessment h = ''In habitable zone but may not have right mass/size for habitability''
              \<longleftrightarrow>
              (ri \<le> d \<and> d \<le> ro)
              \<and> \<not> ((case measured_mass p of None \<Rightarrow> True | Some m \<Rightarrow> 0.1 \<le> m \<and> m \<le> 10)
                    \<and> (case spec_resolve_radius p of
                          None \<Rightarrow> True
                        | Some r \<Rightarrow> 0.5 \<le> r \<and> r \<le> 2)))
         \<and> (assessment h = ''Not in habitable zone'' \<longleftrightarrow> \<not> (ri \<le> d \<and> d \<le> ro))
         \<and> assessment h \<noteq> ''Unknown''"
    unfolding rad habitable_mass_suitable_measured [symmetric]
      habitable_size_suitable_earth_radius [symmetric]
    apply (rule exI [of _ h])
    using h lab by auto
qed

theorem habitability_assessment_witness:
  "\<not> truthy (effective_luminosity zero_record)
   \<and> habitability_section zero_record = Inr unknown_habitability
   \<and> effective_luminosity habitable_twin_record = Some 1
   \<and> st_teff habitable_twin_record = Some 5700
   \<and> pl_orbsmax habitable_twin_record = Some 1
   \<and> calculate_habitable_zone 1 5700 = Inr (0.72, 1.77)
   \<and> pl_rade habitable_twin_record = Some 1
   \<and> measured_mass habitable_twin_record = Some 1
   \<and> (\<exists>h. habitability_section habitable_twin_record = Inr h
         \<and> assessment h = ''Potentially habitable'')"
proof -
  have z: "\<not> truthy (effective_luminosity zero_record)"
    by (simp add: zero_record_def blank_record_def effective_luminosity_def truthy_def)
  have t: "effective_luminosity habitable_twin_record = Some 1
      \<and> st_teff habitable_twin_record = Some 5700 \<and> pl_orbsmax habitable_twin_record = Some 1"
    by (simp add: habitable_twin_record_def sun_like_record_def blank_record_def
        effective_luminosity_def)
  have m: "measured_mass habitable_twin_record = Some 1 \<and> pl_rade habitable_twin_record = Some 1"
    by (simp add: habitable_twin_record_def sun_like_record_def blank_record_def
        measured_mass_def)
  then have r: "spec_resolve_radius habitable_twin_record = Some 1"
    by (simp add: spec_resolve_radius_def)
  from habitability_assessment [of zero_record 1 5700 1 "0.72" "1.77"] z
  have u: "habitability_section zero_record = Inr unknown_habitability"
    by blast
  from habitability_assessment [of habitable_twin_record 1 5700 1 "0.72" "1.77"] t m r
    habitable_zone_of_sun
  have "\<exists>h. habitability_section habitable_twin_record = Inr h
         \<and> assessment h = ''Potentially habitable''"
    by auto
  then show ?thesis
    using z u t m habitable_zone_of_sun by blast
qed

section \<open>Order of the habitable-zone boundaries\<close>

lemma habitable_zone_value:
  assumes "0 < L" and "0 < inner_denominator T" and "0 < outer_denominator T"
  shows "calculate_habitable_zone L T
           = Inr (ris * sqrt (L / inner_denominator T), ros * sqrt (L / outer_denominator T))"
proof -
  have "0 < L / inner_denominator T" and "0 < L / outer_denominator T"
    using assms by simp_all
  then have "\<not> L / inner_denominator T < 0" and "\<not> L / outer_denominator T < 0"
    by simp_all
  then show ?thesis
    using assms by (simp add: calculate_habitable_zone_def py_div_def py_sqrt_def)
qed

lemma scale_into_sqrt: "0 \<le> k \<Longrightarrow> k * sqrt y = sqrt (k ^ 2 * y)"
  by (simp add: real_sqrt_mult)

lemma scaled_sqrt_less:
  assumes "0 < L" and "0 < a" and "0 < b"
  shows "ris * sqrt (L / a) < ros * sqrt (L / b) \<longleftrightarrow> ris ^ 2 * b < ros ^ 2 * a"
proof -
  have nn: "0 \<le> ris" "0 \<le> ros"
    by (simp_all add: ris_def ros_def)
  have i: "ris * sqrt (L / a) = sqrt (ris ^ 2 * (L / a))"
    using nn(1) by (rule scale_into_sqrt)
  have o: "ros * sqrt (L / b) = sqrt (ros ^ 2 * (L / b))"
    using nn(2) by (rule scale_into_sqrt)
  have "ris ^ 2 * (L / a) < ros ^ 2 * (L / b) \<longleftrightarrow> ris ^ 2 * b < ros ^ 2 * a"
    using assms by (simp add: field_simps)
  then show ?thesis
    unfolding i o by simp
qed

lemma concave_quadratic_positive:
  fixes a b c l u x :: real
  assumes "0 \<le> a" and "l \<le> x" and "x \<le> u"
    and "0 < c + b * l - a * l ^ 2" and "0 < c + b * u - a * u ^ 2"
  shows "0 < c + b * x - a * x ^ 2"
proof -
  have "0 \<le> a * ((x - l) * (u - x))"
    using assms by simp
  then have low: "c + b * x + a * (l * u) - a * (l + u) * x \<le> c + b * x - a * x ^ 2"
    by (simp add: power2_eq_square algebra_simps)
  have "l < u \<or> l = u" using assms by linarith
  then show ?thesis
  proof
    assume "l = u"
    then have "x = l" using assms by simp
    then show ?thesis using assms by simp
  next
    assume lu: "l < u"
    define t where "t = (x - l) / (u - l)"
    have t: "0 \<le> t" "t \<le> 1" "x = l + t * (u - l)"
      using lu assms by (simp_all add: t_def)
    have "c + b * x + a * (l * u) - a * (l + u) * x
            = (1 - t) * (c + b * l - a * l ^ 2) + t * (c + b * u - a * u ^ 2)"
      unfolding t(3) by (simp add: power2_eq_square algebra_simps)
    moreover have "0 < (1 - t) * (c + b * l - a * l ^ 2) + t * (c + b * u - a * u ^ 2)"
    proof (cases "t = 0")
      case True
      then show ?thesis using assms by simp
    next
      case False
      then have "0 < t * (c + b * u - a * u ^ 2)" using t assms by simp
      moreover have "0 \<le> (1 - t) * (c + b * l - a * l ^ 2)" using t assms by simp
      ultimately show ?thesis by linarith
    qed
    ultimately show ?thesis using low by linarith
  qed
qed

lemma denominators_positive:
  assumes "0 \<le> T" and "T \<le> 21670"
  shows "0 < inner_denominator T" and "0 < outer_denominator T"
    and "ris ^ 2 * outer_denominator T < ros ^ 2 * inner_denominator T"
proof -
  have r: "- 5700 \<le> T - ts" "T - ts \<le> 15970"
    using assms by (simp_all add: ts_def)
  show "0 < inner_denominator T"
    unfolding inner_denominator_def
    using concave_quadratic_positive [of bi "- 5700" "T - ts" 15970 1 ai] r
    by (simp add: ai_def bi_def)
  show "0 < outer_denominator T"
    unfolding outer_denominator_def
    using concave_quadratic_positive [of bo "- 5700" "T - ts" 15970 1 ao] r
    by (simp add: ao_def bo_def)
  have "0 < (ros ^ 2 - ris ^ 2) + (ros ^ 2 * ai - ris ^ 2 * ao) * (T - ts)
             - (ros ^ 2 * bi - ris ^ 2 * bo) * (T - ts) ^ 2"
    using concave_quadratic_positive [of "ros ^ 2 * bi - ris ^ 2 * bo" "- 5700" "T - ts" 15970
        "ros ^ 2 - ris ^ 2" "ros ^ 2 * ai - ris ^ 2 * ao"] r
    by (simp add: ai_def bi_def ao_def bo_def ris_def ros_def power2_eq_square)
  then show "ris ^ 2 * outer_denominator T < ros ^ 2 * inner_denominator T"
    by (simp add: inner_denominator_def outer_denominator_def algebra_simps)
qed

text \<open>
  Claim C4 as stated fails: at luminosity 1 and temperature 25000 K both quotients under the
  square roots are positive, the boundaries are computed, and the outer boundary is smaller
  than the inner one.
\<close>

theorem habitable_zone_order_counterexample:
  "calculate_habitable_zone 1 25000
     = Inr (ris * sqrt (1 / inner_denominator 25000), ros * sqrt (1 / outer_denominator 25000))
   \<and> ros * sqrt (1 / outer_denominator 25000) < ris * sqrt (1 / inner_denominator 25000)"
proof -
  have d: "0 < inner_denominator 25000" "0 < outer_denominator 25000"
    by (simp_all add: inner_denominator_def outer_denominator_def ai_def bi_def ao_def bo_def
        ts_def)
  have q: "ros ^ 2 * inner_denominator 25000 < ris ^ 2 * outer_denominator 25000"
    by (simp add: inner_denominator_def outer_denominator_def ai_def bi_def ao_def bo_def ts_def
        ris_def ros_def power2_eq_square)
  have nn: "0 \<le> ris" "0 \<le> ros"
    by (simp_all add: ris_def ros_def)
  have i: "ris * sqrt (1 / inner_denominator 25000)
             = sqrt (ris ^ 2 * (1 / inner_denominator 25000))"
    using nn(1) by (rule scale_into_sqrt)
  have o: "ros * sqrt (1 / outer_denominator 25000)
             = sqrt (ros ^ 2 * (1 / outer_denominator 25000))"
    using nn(2) by (rule scale_into_sqrt)
  have "ros ^ 2 * (1 / outer_denominator 25000) < ris ^ 2 * (1 / inner_denominator 25000)"
    using d q by (simp add: field_simps)
  then have "ros * sqrt (1 / outer_denominator 25000) < ris * sqrt (1 / inner_denominator 25000)"
    unfolding i o by simp
  then show ?thesis
    using habitable_zone_value [of 1 25000] d by simp
qed

text \<open>
  Claim C4, amended. For every stellar luminosity L > 0 and every stellar temperature T
  from 0 K to 21670 K, \<open>calculate_habitable_zone\<close> returns boundaries (it does not raise)
  and the inner boundary is strictly less than the outer one.
\<close>

theorem habitable_zone_order:
  assumes "0 < L" and "0 \<le> T" and "T \<le> 21670"
  shows "\<exists>ri ro. calculate_habitable_zone L T = Inr (ri, ro) \<and> ri < ro"
  using assms habitable_zone_value [of L T] denominators_positive [of T]
    scaled_sqrt_less [of L "inner_denominator T" "outer_denominator T"]
  by simp

theorem habitable_zone_order_witness:
  "(0 :: real) < 1 \<and> (0 :: real) \<le> 5700 \<and> (5700 :: real) \<le> 21670
   \<and> (\<exists>ri ro. calculate_habitable_zone 1 5700 = Inr (ri, ro) \<and> ri < ro)"
proof -
  have a: "(0 :: real) < 1" "(0 :: real) \<le> 5700" "(5700 :: real) \<le> 21670"
    by simp_all
  from habitable_zone_order [OF a] a show ?thesis
    by blast
qed

section \<open>Duplicate planet names\<close>

lemma process_planets_snoc:
  "process_planets (ps @ [p]) = process_planet (process_planets ps) p"
  by (simp add: process_planets_def)

lemma analysed_names_snoc:
  "analysed_names (ps @ [p]) =
     (if succeeds p then insert (get (pl_name p)) (analysed_names ps) else analysed_names ps)"
  by (auto simp add: analysed_names_def)

lemma processed_planets_analysed:
  "processed_planets (process_planets ps) = analysed_names ps"
proof (induction ps rule: rev_induct)
  case Nil
  then show ?case
    by (simp add: process_planets_def initial_state_def analysed_names_def)
next
  case (snoc p ps)
  show ?case
  proof (cases "get (pl_name p) \<in> analysed_names ps")
    case True
    then show ?thesis
      using snoc
      by (auto simp add: process_planets_snoc analysed_names_snoc process_planet_def Let_def)
  next
    case False
    then show ?thesis
      using snoc
      by (cases "analyze_exoplanet p")
        (simp_all add: process_planets_snoc analysed_names_snoc process_planet_def Let_def
          succeeds_def)
  qed
qed

lemma results_snoc:
  "results (process_planets (ps @ [p])) =
     results (process_planets ps) @
       (if get (pl_name p) \<in> analysed_names ps then []
        else case analyze_exoplanet p of Inl e \<Rightarrow> [] | Inr r \<Rightarrow> [r])"
  using processed_planets_analysed [of ps]
  by (cases "analyze_exoplanet p") (simp_all add: process_planets_snoc process_planet_def Let_def)

lemma printed_snoc:
  "printed (process_planets (ps @ [p])) =
     printed (process_planets ps) @
       [if get (pl_name p) \<in> analysed_names ps then Skipping_duplicate (get (pl_name p))
        else case analyze_exoplanet p of
               Inl e \<Rightarrow> Error_processing (get (pl_name p)) e
             | Inr r \<Rightarrow> Processed_planet (get (pl_name p))]"
  using processed_planets_analysed [of ps]
  by (cases "analyze_exoplanet p") (simp_all add: process_planets_snoc process_planet_def Let_def)

lemma planet_name_of_result:
  "analyze_exoplanet p = Inr r \<Longrightarrow> pl_name p \<noteq> Missing \<Longrightarrow> planet_name r = get (pl_name p)"
  by (cases "pl_name p")
    (auto simp add: analyze_exoplanet_def get_or_def get_def split: sum.splits)

lemma result_names_analysed:
  "\<forall>q\<in>set ps. pl_name q \<noteq> Missing \<Longrightarrow>
     set (map planet_name (results (process_planets ps))) \<subseteq> analysed_names ps
     \<and> distinct (map planet_name (results (process_planets ps)))"
proof (induction ps rule: rev_induct)
  case Nil
  then show ?case
    by (simp add: process_planets_def initial_state_def)
next
  case (snoc p ps)
  then have ih: "set (map planet_name (results (process_planets ps))) \<subseteq> analysed_names ps"
    "distinct (map planet_name (results (process_planets ps)))"
    and nm: "pl_name p \<noteq> Missing"
    by simp_all
  show ?case
  proof (cases "get (pl_name p) \<in> analysed_names ps")
    case True
    then show ?thesis
      using ih by (auto simp add: results_snoc analysed_names_snoc)
  next
    case False
    show ?thesis
    proof (cases "analyze_exoplanet p")
      case (Inl e)
      then show ?thesis
        using ih False by (auto simp add: results_snoc analysed_names_snoc)
    next
      case (Inr r)
      then have "planet_name r = get (pl_name p)"
        using nm by (rule planet_name_of_result)
      then show ?thesis
        using ih False Inr by (auto simp add: results_snoc analysed_names_snoc succeeds_def)
    qed
  qed
qed

lemma hot_star_raises: "analyze_exoplanet kepler_hot = Inl ValueError"
  by (simp add: kepler_hot_def sun_like_record_def blank_record_def analyze_exoplanet_def
      habitability_section_def
      effective_luminosity_def truthy_def calculate_habitable_zone_def py_div_def py_sqrt_def
      inner_denominator_def ai_def bi_def ts_def Let_def)

lemma sun_like_analysis:
  assumes "d = 1 \<or> d = 1.5"
  shows "\<exists>r. analyze_exoplanet (sun_like_record\<lparr>pl_name := Val n, pl_orbsmax := Some d\<rparr>) = Inr r
           \<and> planet_name r = Some n \<and> actual_distance (habitability r) = Some d"
proof -
  let ?p = "sun_like_record\<lparr>pl_name := Val n, pl_orbsmax := Some d\<rparr>"
  have f: "effective_luminosity ?p = Some 1" "st_teff ?p = Some 5700" "pl_orbsmax ?p = Some d"
    by (simp_all add: sun_like_record_def blank_record_def effective_luminosity_def)
  have "d \<noteq> 0"
    using assms by auto
  then obtain h where h: "habitability_section ?p = Inr h" "actual_distance h = Some d"
    using habitability_section_computed [OF f _ _ _ habitable_zone_of_sun] by auto
  have g: "gravity_section ?p = Inr insufficient_gravity"
    by (simp add: sun_like_record_def blank_record_def gravity_section_def
        calculate_surface_gravity_def
        gravity_earth_mass_def gravity_earth_radius_def truthy_def insufficient_gravity_def)
  have "\<exists>st. star_section ?p = Inr st"
    by (simp add: sun_like_record_def blank_record_def star_section_def
        get_star_type_from_spectype_def truthy_def
        Let_def)
  then obtain st where st: "star_section ?p = Inr st" ..
  show ?thesis
    using h g st by (simp add: analyze_exoplanet_def get_or_def sun_like_record_def
        blank_record_def)
qed

lemma kepler_first_analysis:
  "\<exists>r. analyze_exoplanet kepler_first = Inr r \<and> planet_name r = Some ''Kepler-42 b''
        \<and> actual_distance (habitability r) = Some 1"
  using sun_like_analysis [of 1 "''Kepler-42 b''"]
  by (simp add: kepler_first_def sun_like_record_def blank_record_def)

lemma kepler_second_analysis:
  "\<exists>r. analyze_exoplanet kepler_second = Inr r \<and> planet_name r = Some ''Kepler-42 b''
        \<and> actual_distance (habitability r) = Some 1.5"
  using sun_like_analysis [of "1.5" "''Kepler-42 b''"]
  by (simp add: kepler_second_def sun_like_record_def blank_record_def)

text \<open>
  Claim C9 as stated fails: of two records named "Kepler-42 b", the first around a star of
  30000 K (its analysis raises ValueError in the zone formula) and the second at 1.5 AU
  from a sun-like star, the output holds one record for the name, made from the second
  record, and the second record is not skipped.
\<close>

theorem first_record_raises_counterexample:
  "get (pl_name kepler_hot) = Some ''Kepler-42 b''
   \<and> get (pl_name kepler_second) = Some ''Kepler-42 b''
   \<and> analyze_exoplanet kepler_hot = Inl ValueError
   \<and> map planet_name (results (process_planets [kepler_hot, kepler_second]))
        = [Some ''Kepler-42 b'']
   \<and> map (actual_distance \<circ> habitability) (results (process_planets [kepler_hot, kepler_second]))
        = [pl_orbsmax kepler_second]
   \<and> printed (process_planets [kepler_hot, kepler_second])
        = [Error_processing (Some ''Kepler-42 b'') ValueError,
           Processed_planet (Some ''Kepler-42 b'')]"
proof -
  obtain r where r: "analyze_exoplanet kepler_second = Inr r"
    "planet_name r = Some ''Kepler-42 b''" "actual_distance (habitability r) = Some 1.5"
    using kepler_second_analysis by blast
  have n: "get (pl_name kepler_hot) = Some ''Kepler-42 b''"
    "get (pl_name kepler_second) = Some ''Kepler-42 b''" "pl_orbsmax kepler_second = Some 1.5"
    by (simp_all add: kepler_second_def kepler_hot_def sun_like_record_def blank_record_def
        get_def)
  show ?thesis
    using r n hot_star_raises
    by (simp add: process_planets_def process_planet_def initial_state_def Let_def)
qed

text \<open>
  Claim C9, amended. For every input sequence of records: the names marked as processed
  are those of the records whose analysis returns; a record is emitted exactly when its
  analysis returns and no earlier record of the same name had its analysis return, and it
  is reported as a skipped duplicate (and not emitted) exactly when an earlier record of
  the same name had; a record whose analysis raises is reported as an error and does not
  reserve its name. When no record lacks the name key, each planet name appears in the
  output at most once.
\<close>

theorem first_analysed_record_wins:
  "processed_planets (process_planets ps) = analysed_names ps
   \<and> results (process_planets (ps @ [p])) =
       results (process_planets ps) @
         (if get (pl_name p) \<in> analysed_names ps then []
          else case analyze_exoplanet p of Inl e \<Rightarrow> [] | Inr r \<Rightarrow> [r])
   \<and> printed (process_planets (ps @ [p])) =
       printed (process_planets ps) @
         [if get (pl_name p) \<in> analysed_names ps then Skipping_duplicate (get (pl_name p))
          else case analyze_exoplanet p of
                 Inl e \<Rightarrow> Error_processing (get (pl_name p)) e
               | Inr r \<Rightarrow> Processed_planet (get (pl_name p))]
   \<and> ((\<forall>q\<in>set ps. pl_name q \<noteq> Missing) \<longrightarrow>
        distinct (map planet_name (results (process_planets ps))))"
  using processed_planets_analysed results_snoc printed_snoc result_names_analysed
  by blast

theorem first_analysed_record_wins_witness:
  "pl_name kepler_first \<noteq> Missing \<and> pl_name kepler_second \<noteq> Missing
   \<and> get (pl_name kepler_first) = get (pl_name kepler_second)
   \<and> (\<exists>r. analyze_exoplanet kepler_first = Inr r
         \<and> results (process_planets [kepler_first, kepler_second]) = [r])
   \<and> printed (process_planets [kepler_first, kepler_second])
        = [Processed_planet (Some ''Kepler-42 b''), Skipping_duplicate (Some ''Kepler-42 b'')]
   \<and> distinct (map planet_name (results (process_planets [kepler_first, kepler_second])))"
proof -
  obtain r where r: "analyze_exoplanet kepler_first = Inr r"
    using kepler_first_analysis by blast
  have n: "pl_name kepler_first \<noteq> Missing" "pl_name kepler_second \<noteq> Missing"
    "get (pl_name kepler_first) = Some ''Kepler-42 b''"
    "get (pl_name kepler_second) = Some ''Kepler-42 b''"
    by (simp_all add: kepler_first_def kepler_second_def sun_like_record_def blank_record_def
        get_def)
  have a0: "analysed_names [] = {}"
    by (simp add: analysed_names_def)
  have a1: "analysed_names [kepler_first] = {Some ''Kepler-42 b''}"
    using r n by (auto simp add: analysed_names_def succeeds_def)
  have e: "results (process_planets []) = []" "printed (process_planets []) = []"
    by (simp_all add: process_planets_def initial_state_def)
  from first_analysed_record_wins [of "[]" kepler_first] r n a0 e
  have one: "results (process_planets [kepler_first]) = [r]"
    "printed (process_planets [kepler_first]) = [Processed_planet (Some ''Kepler-42 b'')]"
    by simp_all
  from first_analysed_record_wins [of "[kepler_first]" kepler_second] n a1 one
  have two: "results (process_planets [kepler_first, kepler_second]) = [r]"
    "printed (process_planets [kepler_first, kepler_second])
       = [Processed_planet (Some ''Kepler-42 b''), Skipping_duplicate (Some ''Kepler-42 b'')]"
    by simp_all
  from first_analysed_record_wins [of "[kepler_first, kepler_second]" kepler_first] n
  have "distinct (map planet_name (results (process_planets [kepler_first, kepler_second])))"
    by simp
  then show ?thesis
    using r n two by simp
qed

end
